theory Spec2Isabelle
  imports Main
begin

section \<open>Configuration values\<close>

text \<open>
  The objects that \<^verbatim>\<open>json.load\<close> and \<^verbatim>\<open>yaml.safe_load\<close> hand to the merge:
  \<^verbatim>\<open>None\<close>, booleans, numbers, strings, lists and dicts. A dict is kept as the list of
  its items in insertion order; floats behave like every other scalar in the code below
  and are not given a constructor of their own.
\<close>

datatype json =
    JNull
  | JBool bool
  | JInt int
  | JStr string
  | JList "json list"
  | JDict "(string \<times> json) list"

type_synonym dict = "(string \<times> json) list"

text \<open>\<^verbatim>\<open>d[key]\<close>: \<open>None\<close> stands for the \<^verbatim>\<open>KeyError\<close>.\<close>

definition dict_get :: "dict \<Rightarrow> string \<Rightarrow> json option" where
  "dict_get d key = map_of d key"

text \<open>\<^verbatim>\<open>d[key] = value\<close>: an existing key keeps its position, a new key goes last.\<close>

fun dict_set :: "dict \<Rightarrow> string \<Rightarrow> json \<Rightarrow> dict" where
  "dict_set [] key v = [(key, v)]"
| "dict_set ((k, w) # d) key v =
     (if k = key then (key, v) # d else (k, w) # dict_set d key v)"

definition keys :: "dict \<Rightarrow> string set" where
  "keys d = set (map fst d)"

section \<open>Recursive merge (\<^verbatim>\<open>configuration._merge_dicts\<close>)\<close>

text \<open>
  \<^verbatim>\<open>
  def _merge_dicts(obj: dict, update: dict) -> dict:
      if not isinstance(update, dict) or not isinstance(obj, dict):
          return update
      result = {}
      for key, value in obj.items():
          try:
              result[key] = _merge_dicts(value, update[key])
          except KeyError:
              result[key] = value
      return result
  \<close>
  \<open>merge_loop\<close> is the \<^verbatim>\<open>for\<close> loop: the items of \<^verbatim>\<open>obj\<close> still to visit, the
  \<^verbatim>\<open>update\<close> dict and the \<^verbatim>\<open>result\<close> built so far. The loop never looks at the items
  of \<^verbatim>\<open>update\<close>.
\<close>

fun merge_dicts :: "json \<Rightarrow> json \<Rightarrow> json"
  and merge_loop :: "dict \<Rightarrow> dict \<Rightarrow> dict \<Rightarrow> dict" where
  "merge_dicts (JDict obj) (JDict update) = JDict (merge_loop obj update [])"
| "merge_dicts obj update = update"
| "merge_loop [] update result = result"
| "merge_loop ((key, v) # items) update result =
     merge_loop items update
       (dict_set result key
          (case dict_get update key of
             Some u \<Rightarrow> merge_dicts v u
           | None \<Rightarrow> v))"

section \<open>Paths (\<^verbatim>\<open>pathlib\<close>, POSIX flavour)\<close>

text \<open>
  \<^verbatim>\<open>Path(file)\<close> parses its argument: the string is split at every \<^verbatim>\<open>/\<close>, and the
  empty components and the components \<^verbatim>\<open>.\<close> are dropped (\<^verbatim>\<open>..\<close> is kept). The
  root is \<^verbatim>\<open>//\<close> when the string starts with exactly two slashes, \<^verbatim>\<open>/\<close> when it
  starts with any other number of them, and empty otherwise. \<^verbatim>\<open>str(path)\<close>, which is
  what \<^verbatim>\<open>path.open\<close> hands to the operating system, is the root followed by the
  components joined with \<^verbatim>\<open>/\<close>, or \<^verbatim>\<open>.\<close> when that is empty. \<^verbatim>\<open>Path.name\<close> is the
  last component, or the empty string when there is none; \<^verbatim>\<open>Path.suffix\<close> is
  \<^verbatim>\<open>name[i:]\<close> for \<^verbatim>\<open>i = name.rfind('.')\<close> when \<^verbatim>\<open>0 < i < len(name) - 1\<close> and the
  empty string otherwise; \<^verbatim>\<open>Path.stem\<close> is the name without that suffix.
\<close>

fun split_sep :: "string \<Rightarrow> string \<Rightarrow> string list" where
  "split_sep cur [] = [cur]"
| "split_sep cur (c # cs) =
     (if c = CHR ''/'' then cur # split_sep [] cs else split_sep (cur @ [c]) cs)"

definition path_parts :: "string \<Rightarrow> string list" where
  "path_parts p = filter (\<lambda>x. x \<noteq> [] \<and> x \<noteq> ''.'') (split_sep [] p)"

definition path_root :: "string \<Rightarrow> string" where
  "path_root p =
     (let slashes = length (takeWhile (\<lambda>c. c = CHR ''/'') p)
      in if slashes = 0 then [] else if slashes = 2 then ''//'' else ''/'')"

fun join_sep :: "string list \<Rightarrow> string" where
  "join_sep [] = []"
| "join_sep [x] = x"
| "join_sep (x # y # ys) = x @ ''/'' @ join_sep (y # ys)"

definition path_str :: "string \<Rightarrow> string" where
  "path_str p =
     (let s = path_root p @ join_sep (path_parts p)
      in if s = [] then ''.'' else s)"

definition path_name :: "string \<Rightarrow> string" where
  "path_name p = (if path_parts p = [] then [] else last (path_parts p))"

definition path_suffix :: "string \<Rightarrow> string" where
  "path_suffix p =
     (let name = path_name p;
          ext = rev (takeWhile (\<lambda>c. c \<noteq> CHR ''.'') (rev name))
      in if CHR ''.'' \<in> set name \<and> length ext + 1 < length name \<and> ext \<noteq> []
         then CHR ''.'' # ext else [])"

definition path_stem :: "string \<Rightarrow> string" where
  "path_stem p =
     (let name = path_name p
      in take (length name - length (path_suffix p)) name)"

section \<open>Building the configuration file (\<^verbatim>\<open>configuration.build_config_file\<close>)\<close>

text \<open>
  What the function takes from outside the repository: the two parsers (\<open>None\<close> is the
  parser's own exception, on a malformed document), the serialiser
  \<^verbatim>\<open>json.dump(_, indent=2)\<close>, \<^verbatim>\<open>repr\<close> on strings, and the module constant
  \<^verbatim>\<open>ROOT_CONFIG_FILE\<close>, which depends on where the package is installed.
\<close>

record env =
  json_load :: "string \<Rightarrow> json option"
  yaml_safe_load :: "string \<Rightarrow> json option"
  json_dump :: "json \<Rightarrow> string"
  repr :: "string \<Rightarrow> string"
  ROOT_CONFIG_FILE :: string

text \<open>
  The file system: the text of every file that can be opened for reading, by the path
  string given to the operating system.
\<close>

type_synonym filesystem = "string \<rightharpoonup> string"

text \<open>
  The exceptions of \<^verbatim>\<open>build_config_file\<close>: \<^verbatim>\<open>path.open("r")\<close> on a file that
  cannot be opened (\<open>FileNotFoundError\<close>, with the path string, stands for every
  \<^verbatim>\<open>OSError\<close> of \<^verbatim>\<open>open\<close>), the two parsers' errors, and the \<^verbatim>\<open>ValueError\<close> of the
  \<^verbatim>\<open>else\<close> branch with its message.
\<close>

datatype error =
    FileNotFoundError string
  | JSONDecodeError
  | YAMLError
  | ValueError string

definition suffix_message :: "env \<Rightarrow> string \<Rightarrow> string" where
  "suffix_message e file =
     ''Configuration file suffix should be .json, .yml, or .yaml, not '' @
     repr e (path_suffix file)"

text \<open>
  \<^verbatim>\<open>path = Path(file)\<close> and the \<^verbatim>\<open>with path.open("r") as stream:\<close> block up to
  the binding of \<^verbatim>\<open>file_obj\<close>: the file is opened first, under the string of the
  parsed path, and the suffix is looked at afterwards.
\<close>

definition load_source :: "env \<Rightarrow> filesystem \<Rightarrow> string \<Rightarrow> error + json" where
  "load_source e fs file =
     (case fs (path_str file) of
        None \<Rightarrow> Inl (FileNotFoundError (path_str file))
      | Some stream \<Rightarrow>
          if path_suffix file = ''.json'' then
            (case json_load e stream of
               None \<Rightarrow> Inl JSONDecodeError
             | Some file_obj \<Rightarrow> Inr file_obj)
          else if path_suffix file \<in> {''.yaml'', ''.yml''} then
            (case yaml_safe_load e stream of
               None \<Rightarrow> Inl YAMLError
             | Some file_obj \<Rightarrow> Inr file_obj)
          else Inl (ValueError (suffix_message e file)))"

text \<open>
  \<^verbatim>\<open>
  obj = {}
  for file in filenames:
      path = Path(file)
      with path.open("r") as stream:
          ...
          obj = _merge_dicts(obj, file_obj)
  with open(ROOT_CONFIG_FILE, "w") as ostream:
      json.dump(obj, ostream, indent=2)
  return obj
  \<close>
  \<open>config_loop\<close> is the \<^verbatim>\<open>for\<close> loop with \<^verbatim>\<open>obj\<close> as its accumulator; an exception
  leaves the loop at once. \<open>build_config_file\<close> returns the outcome together with the
  file system afterwards.
\<close>

fun config_loop :: "env \<Rightarrow> filesystem \<Rightarrow> string list \<Rightarrow> json \<Rightarrow> error + json" where
  "config_loop e fs [] obj = Inr obj"
| "config_loop e fs (file # filenames) obj =
     (case load_source e fs file of
        Inl err \<Rightarrow> Inl err
      | Inr file_obj \<Rightarrow> config_loop e fs filenames (merge_dicts obj file_obj))"

definition build_config_file ::
  "env \<Rightarrow> filesystem \<Rightarrow> string list \<Rightarrow> (error + json) \<times> filesystem" where
  "build_config_file e fs filenames =
     (case config_loop e fs filenames (JDict []) of
        Inl err \<Rightarrow> (Inl err, fs)
      | Inr obj \<Rightarrow> (Inr obj, fs(ROOT_CONFIG_FILE e \<mapsto> json_dump e obj)))"

section \<open>Script globals (\<^verbatim>\<open>code_runners.make_script_globals\<close>)\<close>

text \<open>
  Python values as far as the function tells them apart: \<^verbatim>\<open>None\<close>, a string, or any
  other object. \<^verbatim>\<open>Path.resolve\<close> depends on the working directory and on symbolic
  links, and is a parameter. The optional argument \<^verbatim>\<open>name\<close> is \<open>None\<close> when the caller
  leaves it out. \<^verbatim>\<open>kwargs\<close> holds the remaining keyword arguments by name.
  \<^verbatim>\<open>
  G = {"__file__": str(script.resolve()), "__name__": name,
       "__package__": None, "__cached__": None}
  G.update(kwargs)
  return G
  \<close>
\<close>

datatype 'a pyobj = PyNone | PyStr string | PyObj 'a

type_synonym 'a globals = "string \<rightharpoonup> 'a pyobj"

definition make_script_globals ::
  "(string \<Rightarrow> string) \<Rightarrow> string \<Rightarrow> 'a pyobj option \<Rightarrow> 'a globals \<Rightarrow> 'a globals" where
  "make_script_globals resolve script name kwargs =
     (let G = [''__file__'' \<mapsto> PyStr (resolve script),
               ''__name__'' \<mapsto> (case name of None \<Rightarrow> PyStr ''__main__'' | Some n \<Rightarrow> n),
               ''__package__'' \<mapsto> PyNone,
               ''__cached__'' \<mapsto> PyNone]
      in G ++ kwargs)"

section \<open>Running a script in process (\<^verbatim>\<open>code_runners.run_script\<close>)\<close>

text \<open>
  \<^verbatim>\<open>
  runner = runpy.run_module if as_module else runpy.run_path
  if outfile is not None:
      with outfile.open(write_mode) as outstream:
          with redirect_stderr(outstream), redirect_stdout(outstream):
              runner(script.stem, init_globals=globals, run_name="__main__")
  else:
      runner(str(script.resolve()), init_globals=globals, run_name="__main__")
  \<close>
  The effect of \<open>run_script\<close> is the one call of \<^verbatim>\<open>runpy\<close> it makes: which function,
  its first argument, the two keyword arguments, and the file both output streams are
  redirected to during the call, with the mode it was opened in.
\<close>

datatype runner = run_module | run_path

record 'a runpy_call =
  runner :: runner
  target :: string
  init_globals :: "'a globals"
  run_name :: string
  redirect :: "(string \<times> string) option"

definition run_script ::
  "(string \<Rightarrow> string) \<Rightarrow> string \<Rightarrow> 'a globals \<Rightarrow> string option \<Rightarrow> string \<Rightarrow> bool
     \<Rightarrow> 'a runpy_call" where
  "run_script resolve script globals outfile write_mode as_module =
     (let r = (if as_module then run_module else run_path)
      in case outfile of
           Some out \<Rightarrow>
             \<lparr>runner = r, target = path_stem script, init_globals = globals,
              run_name = ''__main__'', redirect = Some (out, write_mode)\<rparr>
         | None \<Rightarrow>
             \<lparr>runner = r, target = resolve script, init_globals = globals,
              run_name = ''__main__'', redirect = None\<rparr>)"

section \<open>Waiting for the child (\<^verbatim>\<open>code_runners.wrap_with_shell_command\<close>)\<close>


datatype signal = SIGINT | SIGTERM | SIGKILL



text \<open>
  The same loop step by step, for the runs in which the interrupt does not wait for the
  parent to be back in \<^verbatim>\<open>process.wait()\<close>. The parent is at one of these points:
  \<^item> \<open>InWait\<close>: blocked in \<^verbatim>\<open>process.wait()\<close>, inside the \<^verbatim>\<open>try\<close>;
  \<^item> \<open>InGrace\<close>: in the \<^verbatim>\<open>except KeyboardInterrupt\<close> clause of \<^verbatim>\<open>Popen.wait\<close> itself,
    which waits once more for the child (at most 0.25 s) and then raises the
    \<^verbatim>\<open>KeyboardInterrupt\<close> again;
  \<^item> \<open>InHandler\<close>: in the \<^verbatim>\<open>except KeyboardInterrupt\<close> clause of the loop, about to run
    \<^verbatim>\<open>process.send_signal(signal.SIGINT)\<close>;
  \<^item> \<open>AtExit\<close>: \<^verbatim>\<open>process.wait()\<close> has returned, \<^verbatim>\<open>exit(0)\<close> is next, still inside
    the \<^verbatim>\<open>try\<close>;
  \<^item> \<open>Exited n\<close>: the parent has ended with exit status \<open>n\<close>;
  \<^item> \<open>Interrupted\<close>: a \<^verbatim>\<open>KeyboardInterrupt\<close> has left the loop uncaught and ended the
    parent.

  A run is a list of events. \<open>Interrupt\<close>: the parent receives an interrupt, and
  \<^verbatim>\<open>KeyboardInterrupt\<close> is raised at the point where it is. \<open>ChildExit code\<close>: the
  child ends. \<open>Proceed\<close>: the parent completes what it is doing at its point: a wait
  returns once the child has ended, the grace wait is over, \<^verbatim>\<open>send_signal\<close> signals the
  child unless it has ended and the loop goes round, \<^verbatim>\<open>exit(0)\<close> ends the parent.
  \<open>child\<close> is the exit code of the child once it has ended, \<open>forwarded\<close> the signals
  sent to it.
\<close>

datatype point = InWait | InGrace | InHandler | AtExit | Exited int | Interrupted

datatype event = Interrupt | ChildExit int | Proceed

record run_state =
  point :: point
  child :: "int option"
  forwarded :: "signal list"

text \<open>
  Where a \<^verbatim>\<open>KeyboardInterrupt\<close> raised at a point is caught: one raised in the wait is
  caught by \<^verbatim>\<open>Popen.wait\<close>; one raised in the grace wait or at \<^verbatim>\<open>exit(0)\<close> is caught
  by the loop's \<^verbatim>\<open>except\<close>; one raised in the loop's \<^verbatim>\<open>except\<close> clause is caught by
  nothing.
\<close>

fun on_interrupt :: "point \<Rightarrow> point" where
  "on_interrupt InWait = InGrace"
| "on_interrupt InGrace = InHandler"
| "on_interrupt AtExit = InHandler"
| "on_interrupt InHandler = Interrupted"
| "on_interrupt (Exited n) = Exited n"
| "on_interrupt Interrupted = Interrupted"

fun parent_step :: "run_state \<Rightarrow> event \<Rightarrow> run_state" where
  "parent_step s Interrupt = s\<lparr>point := on_interrupt (point s)\<rparr>"
| "parent_step s (ChildExit code) = (if child s = None then s\<lparr>child := Some code\<rparr> else s)"
| "parent_step s Proceed =
     (case point s of
        InWait \<Rightarrow> if child s = None then s else s\<lparr>point := AtExit\<rparr>
      | InGrace \<Rightarrow> s\<lparr>point := InHandler\<rparr>
      | InHandler \<Rightarrow>
          s\<lparr>point := InWait,
            forwarded := (if child s = None then forwarded s @ [SIGINT] else forwarded s)\<rparr>
      | AtExit \<Rightarrow> s\<lparr>point := Exited 0\<rparr>
      | Exited n \<Rightarrow> s
      | Interrupted \<Rightarrow> s)"

definition spawned :: run_state where
  "spawned = \<lparr>point = InWait, child = None, forwarded = []\<rparr>"

definition run_parent :: "event list \<Rightarrow> run_state" where
  "run_parent events = foldl parent_step spawned events"

section \<open>A concrete environment\<close>

text \<open>
  A small world to run the functions in: a parser pair that knows a handful of
  documents and rejects every other text, and a project directory with a few files.
\<close>

definition example_env :: env where
  "example_env =
     \<lparr>json_load = map_of [(''{}'', JDict [])],
      yaml_safe_load = map_of
        [(''a: 1'', JDict [(''a'', JInt 1)]),
         (''a: null'', JDict [(''a'', JNull)])],
      json_dump = (\<lambda>obj. if obj = JDict [] then ''{}'' else ''...''),
      repr = (\<lambda>s. [CHR 0x27] @ s @ [CHR 0x27]),
      ROOT_CONFIG_FILE = ''/proj/configuration.json''\<rparr>"

definition example_fs :: filesystem where
  "example_fs = map_of
     [(''base.yaml'', ''a: 1''),
      (''local.yaml'', ''a: null''),
      (''broken.json'', ''{''),
      (''x/cfg.toml'', ''a = 1''),
      (''y/cfg.toml'', ''a = 1'')]"

definition example_resolve :: "string \<Rightarrow> string" where
  "example_resolve p = (if take 1 p = ''/'' then p else ''/proj/'' @ p)"

section \<open>Properties\<close>

subsection \<open>Dictionaries and the merge loop\<close>

lemma keys_Nil: "keys [] = {}"
  by (simp add: keys_def)

lemma keys_Cons: "keys ((k, v) # d) = insert k (keys d)"
  by (simp add: keys_def)

lemma keys_dict_set: "keys (dict_set d key v) = insert key (keys d)"
  by (induction d key v rule: dict_set.induct) (auto simp: keys_Nil keys_Cons)

text \<open>The loop adds exactly the keys it visits, and it visits the keys of \<^verbatim>\<open>obj\<close>.\<close>

lemma keys_merge_loop: "keys (merge_loop items update result) = keys result \<union> keys items"
  by (induction items arbitrary: result) (auto simp: keys_dict_set keys_Nil keys_Cons)

subsection \<open>The loop over the sources\<close>

lemma config_loop_append:
  "config_loop e fs (pre @ post) obj =
     (case config_loop e fs pre obj of
        Inl err \<Rightarrow> Inl err
      | Inr obj' \<Rightarrow> config_loop e fs post obj')"
  by (induction pre arbitrary: obj) (auto split: sum.splits)

lemma config_loop_dicts:
  "(\<forall>file \<in> set filenames. \<exists>d. load_source e fs file = Inr (JDict d)) \<Longrightarrow>
   config_loop e fs filenames (JDict []) = Inr (JDict [])"
  by (induction filenames) auto

lemma config_loop_loaded:
  "(\<forall>p \<in> set pre. \<exists>v. load_source e fs p = Inr v) \<Longrightarrow>
   \<exists>obj'. config_loop e fs pre obj = Inr obj'"
  by (induction pre arbitrary: obj) auto

lemma load_source_unrecognized:
  "path_suffix f \<notin> {''.json'', ''.yaml'', ''.yml''} \<Longrightarrow>
   load_source e fs f =
     (case fs (path_str f) of
        None \<Rightarrow> Inl (FileNotFoundError (path_str f))
      | Some stream \<Rightarrow> Inl (ValueError (suffix_message e f)))"
  by (simp add: load_source_def split: option.splits)

lemma build_error_keeps_fs:
  "config_loop e fs filenames (JDict []) = Inl err \<Longrightarrow>
   build_config_file e fs filenames = (Inl err, fs)"
  by (simp add: build_config_file_def)

text \<open>The paths of the example, and two paths that end in a \<^verbatim>\<open>.\<close> component.\<close>

lemmas path_defs =
  path_str_def path_root_def path_parts_def path_name_def path_suffix_def path_stem_def

lemma str_example:
  "path_str ''base.yaml'' = ''base.yaml''" "path_str ''local.yaml'' = ''local.yaml''"
  "path_str ''broken.json'' = ''broken.json''" "path_str ''cfg.toml'' = ''cfg.toml''"
  "path_str ''x/cfg.toml'' = ''x/cfg.toml''" "path_str ''y/cfg.toml'' = ''y/cfg.toml''"
  by (simp_all add: path_defs)

lemma suffix_example:
  "path_suffix ''base.yaml'' = ''.yaml''" "path_suffix ''local.yaml'' = ''.yaml''"
  "path_suffix ''broken.json'' = ''.json''"
  by (simp_all add: path_defs)

lemma suffix_toml: "path_suffix ''x/cfg.toml'' = ''.toml''" "path_suffix ''y/cfg.toml'' = ''.toml''"
  "path_suffix ''cfg.toml'' = ''.toml''"
  by (simp_all add: path_defs)

lemma dot_component_dropped:
  "path_str ''ok.json/.'' = ''ok.json''" "path_suffix ''ok.json/.'' = ''.json''"
  "path_stem ''ok.json/.'' = ''ok''" "path_suffix ''cfg.toml/.'' = ''.toml''"
  "path_name ''a/b.json//'' = ''b.json''" "path_str ''.'' = ''.''"
  by (simp_all add: path_defs)

text \<open>The files of the example, loaded one by one.\<close>

lemma load_base: "load_source example_env example_fs ''base.yaml'' = Inr (JDict [(''a'', JInt 1)])"
  by (simp add: load_source_def str_example suffix_example example_env_def example_fs_def)

lemma load_local: "load_source example_env example_fs ''local.yaml'' = Inr (JDict [(''a'', JNull)])"
  by (simp add: load_source_def str_example suffix_example example_env_def example_fs_def)

lemma load_broken: "load_source example_env example_fs ''broken.json'' = Inl JSONDecodeError"
  by (simp add: load_source_def str_example suffix_example example_env_def example_fs_def)

lemma toml_message:
  "suffix_message example_env ''x/cfg.toml'' =
     ''Configuration file suffix should be .json, .yml, or .yaml, not '' @
     [CHR 0x27] @ ''.toml'' @ [CHR 0x27]"
  "suffix_message example_env ''y/cfg.toml'' = suffix_message example_env ''x/cfg.toml''"
  by (simp_all add: suffix_message_def suffix_toml example_env_def)

lemma load_toml:
  "load_source example_env example_fs ''x/cfg.toml'' =
     Inl (ValueError (suffix_message example_env ''x/cfg.toml''))"
  "load_source example_env example_fs ''y/cfg.toml'' =
     Inl (ValueError (suffix_message example_env ''y/cfg.toml''))"
  "load_source example_env example_fs ''cfg.toml'' = Inl (FileNotFoundError ''cfg.toml'')"
  by (simp_all add: load_source_def str_example suffix_toml example_fs_def)

lemma example_root:
  "ROOT_CONFIG_FILE example_env = ''/proj/configuration.json''"
  "json_dump example_env (JDict []) = ''{}''"
  by (simp_all add: example_env_def)

subsection \<open>The wait loop, step by step\<close>

text \<open>
  Interrupts that each find the parent blocked in the wait, with the child running, are
  forwarded one by one, and the parent is blocked in the wait again after each.
\<close>

lemma spaced_interrupts_forwarded:
  "foldl parent_step \<lparr>point = InWait, child = None, forwarded = sent\<rparr>
     (concat (replicate n [Interrupt, Proceed, Proceed])) =
   \<lparr>point = InWait, child = None, forwarded = sent @ replicate n SIGINT\<rparr>"
  by (induction n arbitrary: sent) (simp_all add: replicate_app_Cons_same)

text \<open>
  When the child ends while the parent is blocked in the wait and no interrupt
  arrives, the wait returns and the parent ends with exit status 0.
\<close>

lemma child_exit_then_exit_zero:
  "foldl parent_step \<lparr>point = InWait, child = None, forwarded = sent\<rparr>
     [ChildExit code, Proceed, Proceed] =
   \<lparr>point = Exited 0, child = Some code, forwarded = sent\<rparr>"
  by simp

section \<open>The claims\<close>

text \<open>
  C1. For two sources merged in order, every key of the second source's mapping should
  be in the merged result with the second source's value, a null included. The code
  does not do this: \<^verbatim>\<open>base.yaml\<close> holds \<^verbatim>\<open>{a: 1}\<close>, \<^verbatim>\<open>local.yaml\<close> holds
  \<^verbatim>\<open>{a: null}\<close>, and the merged configuration is the empty mapping, with no key
  \<^verbatim>\<open>a\<close>. The accumulator starts as \<^verbatim>\<open>{}\<close> and \<open>merge_loop\<close> only visits the keys of
  the accumulator.
\<close>

theorem later_source_key_missing:
  "load_source example_env example_fs ''base.yaml'' = Inr (JDict [(''a'', JInt 1)]) \<and>
   load_source example_env example_fs ''local.yaml'' = Inr (JDict [(''a'', JNull)]) \<and>
   build_config_file example_env example_fs [''base.yaml'', ''local.yaml''] =
     (Inr (JDict []), example_fs(''/proj/configuration.json'' \<mapsto> ''{}'')) \<and>
   dict_get [] ''a'' = None"
  by (simp add: build_config_file_def load_base load_local example_root dict_get_def)

text \<open>
  C2. In the merge of a base mapping with an update mapping, a key only in the base
  should keep its value and a key only in the update should be added. The first half
  holds on the code; the second does not: merging \<^verbatim>\<open>{a: {x: 1, y: 2}}\<close> with
  \<^verbatim>\<open>{a: {y: 3}, b: 4}\<close> keeps \<^verbatim>\<open>x\<close>, updates \<^verbatim>\<open>y\<close> and drops \<^verbatim>\<open>b\<close>, and merging
  the empty mapping with \<^verbatim>\<open>{b: 4}\<close> gives the empty mapping.
\<close>

theorem update_only_key_dropped:
  "merge_dicts (JDict [(''a'', JDict [(''x'', JInt 1), (''y'', JInt 2)])])
               (JDict [(''a'', JDict [(''y'', JInt 3)]), (''b'', JInt 4)]) =
     JDict [(''a'', JDict [(''x'', JInt 1), (''y'', JInt 3)])] \<and>
   merge_dicts (JDict []) (JDict [(''b'', JInt 4)]) = JDict []"
  by (simp add: dict_get_def)

text \<open>
  C3. When both arguments of \<^verbatim>\<open>_merge_dicts\<close> are dicts, the result is a dict with
  exactly the keys of the first argument. Hence, when every source loads and parses to
  a mapping, \<^verbatim>\<open>build_config_file\<close> returns the empty mapping and writes the
  serialised empty mapping to \<^verbatim>\<open>ROOT_CONFIG_FILE\<close>.
\<close>

theorem merge_keys_base_build_empty:
  "(\<exists>result. merge_dicts (JDict obj) (JDict update) = JDict result \<and> keys result = keys obj) \<and>
   ((\<forall>file \<in> set filenames. \<exists>d. load_source e fs file = Inr (JDict d)) \<longrightarrow>
      build_config_file e fs filenames =
        (Inr (JDict []), fs(ROOT_CONFIG_FILE e \<mapsto> json_dump e (JDict []))))"
  by (simp add: keys_merge_loop keys_Nil config_loop_dicts build_config_file_def)

theorem merge_keys_base_build_empty_witness:
  "(\<exists>result. merge_dicts (JDict [(''a'', JInt 1)]) (JDict [(''a'', JNull), (''b'', JInt 2)]) =
       JDict result \<and> keys result = keys [(''a'', JInt 1)]) \<and>
   load_source example_env example_fs ''base.yaml'' = Inr (JDict [(''a'', JInt 1)]) \<and>
   load_source example_env example_fs ''local.yaml'' = Inr (JDict [(''a'', JNull)]) \<and>
   build_config_file example_env example_fs [''base.yaml'', ''local.yaml''] =
     (Inr (JDict []), example_fs(''/proj/configuration.json'' \<mapsto> ''{}''))"
proof -
  have h: "\<forall>file \<in> set [''base.yaml'', ''local.yaml''].
             \<exists>d. load_source example_env example_fs file = Inr (JDict d)"
    by (simp add: load_base load_local)
  from merge_keys_base_build_empty
    [of "[(''a'', JInt 1)]" "[(''a'', JNull), (''b'', JInt 2)]"
        "[''base.yaml'', ''local.yaml'']" example_env example_fs]
  show ?thesis using h by (simp add: load_base load_local example_root)
qed

text \<open>
  C4. Merging the one-element list \<^verbatim>\<open>[S]\<close> should return the mapping parsed from
  \<^verbatim>\<open>S\<close>. The code does not: \<^verbatim>\<open>base.yaml\<close> parses to \<^verbatim>\<open>{a: 1}\<close>, and
  \<^verbatim>\<open>build_config_file\<close> on it alone returns and writes the empty mapping.
\<close>

theorem single_source_not_identity:
  "load_source example_env example_fs ''base.yaml'' = Inr (JDict [(''a'', JInt 1)]) \<and>
   build_config_file example_env example_fs [''base.yaml''] =
     (Inr (JDict []), example_fs(''/proj/configuration.json'' \<mapsto> ''{}'')) \<and>
   JDict [] \<noteq> JDict [(''a'', JInt 1)]"
  by (simp add: build_config_file_def load_base example_root)

text \<open>
  C5. The parent should never end before the child has ended, and every interrupt it
  receives while it waits should reach the child as a \<^verbatim>\<open>SIGINT\<close>. The code does not
  do this in every run. First run: an interrupt arrives in the wait, the grace wait of
  \<^verbatim>\<open>Popen.wait\<close> passes, and a second interrupt arrives while the loop's \<^verbatim>\<open>except\<close>
  clause is about to forward the first: the parent ends on the uncaught
  \<^verbatim>\<open>KeyboardInterrupt\<close>, the child is still running, and nothing has been forwarded.
  Second run: two interrupts arrive within the grace wait: they leave
  \<^verbatim>\<open>process.wait()\<close> as one exception, and one \<^verbatim>\<open>SIGINT\<close> is forwarded for the two.
\<close>

theorem interrupt_in_handler_ends_parent:
  "run_parent [Interrupt, Proceed, Interrupt] =
     \<lparr>point = Interrupted, child = None, forwarded = []\<rparr> \<and>
   run_parent [Interrupt, Interrupt, Proceed] =
     \<lparr>point = InWait, child = None, forwarded = [SIGINT]\<rparr>"
  by (simp add: run_parent_def spawned_def)



text \<open>
  C7 as stated: a list of sources that contains a source with an unrecognized extension
  fails with the unsupported-format error (the \<^verbatim>\<open>ValueError\<close> of the \<^verbatim>\<open>else\<close>
  branch), which identifies the offending path and extension, before any merge work.
  This does not hold on the code. \<^verbatim>\<open>x/cfg.toml\<close> has the suffix \<^verbatim>\<open>.toml\<close>; listed
  after the malformed \<^verbatim>\<open>broken.json\<close> the failure is the parser's error; a
  \<^verbatim>\<open>cfg.toml\<close> that does not exist fails with \<^verbatim>\<open>FileNotFoundError\<close>; and the
  message for \<^verbatim>\<open>x/cfg.toml\<close> names the suffix only, so that \<^verbatim>\<open>y/cfg.toml\<close> fails
  with the very same error value.
\<close>

theorem unsupported_format_counterexample:
  "path_suffix ''x/cfg.toml'' = ''.toml'' \<and>
   fst (build_config_file example_env example_fs [''broken.json'', ''x/cfg.toml'']) =
     Inl JSONDecodeError \<and>
   fst (build_config_file example_env example_fs [''cfg.toml'']) =
     Inl (FileNotFoundError ''cfg.toml'') \<and>
   fst (build_config_file example_env example_fs [''x/cfg.toml'']) =
     Inl (ValueError (''Configuration file suffix should be .json, .yml, or .yaml, not '' @
                      [CHR 0x27] @ ''.toml'' @ [CHR 0x27])) \<and>
   fst (build_config_file example_env example_fs [''y/cfg.toml'']) =
     fst (build_config_file example_env example_fs [''x/cfg.toml''])"
  by (simp add: build_config_file_def load_broken load_toml toml_message suffix_toml)

text \<open>
  C7, amended. A list of sources that contains a source \<open>f\<close> with an unrecognized
  extension (the suffix of the parsed path) always fails, and the file system is left
  as it was. When \<open>f\<close> can be opened and every source listed before it loads without
  error, the failure is the
  \<^verbatim>\<open>ValueError\<close> raised for \<open>f\<close>, whose message is built from the extension of
  \<open>f\<close> alone.
\<close>

theorem unrecognized_suffix_fails:
  "path_suffix f \<notin> {''.json'', ''.yaml'', ''.yml''} \<Longrightarrow>
   (\<exists>err. build_config_file e fs (pre @ f # post) = (Inl err, fs)) \<and>
   (fs (path_str f) \<noteq> None \<and> (\<forall>p \<in> set pre. \<exists>v. load_source e fs p = Inr v) \<longrightarrow>
      build_config_file e fs (pre @ f # post) = (Inl (ValueError (suffix_message e f)), fs))"
proof -
  assume sfx: "path_suffix f \<notin> {''.json'', ''.yaml'', ''.yml''}"
  have at_f: "config_loop e fs (f # post) obj =
      (case fs (path_str f) of
         None \<Rightarrow> Inl (FileNotFoundError (path_str f))
       | Some stream \<Rightarrow> Inl (ValueError (suffix_message e f)))" for obj
    by (simp add: load_source_unrecognized [OF sfx] split: option.splits)
  have fails: "\<exists>err. config_loop e fs (pre @ f # post) (JDict []) = Inl err"
    by (cases "config_loop e fs pre (JDict [])"; cases "fs (path_str f)")
       (simp_all add: config_loop_append at_f del: config_loop.simps)
  have first: "build_config_file e fs (pre @ f # post) = (Inl (ValueError (suffix_message e f)), fs)"
    if "fs (path_str f) \<noteq> None" and "\<forall>p \<in> set pre. \<exists>v. load_source e fs p = Inr v"
  proof -
    from that(2) obtain obj' where "config_loop e fs pre (JDict []) = Inr obj'"
      using config_loop_loaded by blast
    with that(1)
    have "config_loop e fs (pre @ f # post) (JDict []) = Inl (ValueError (suffix_message e f))"
      by (auto simp: config_loop_append at_f simp del: config_loop.simps)
    then show ?thesis by (rule build_error_keeps_fs)
  qed
  from fails first show ?thesis
    by (auto dest: build_error_keeps_fs)
qed

theorem unrecognized_suffix_fails_witness:
  "path_suffix ''x/cfg.toml'' \<notin> {''.json'', ''.yaml'', ''.yml''} \<and>
   example_fs (path_str ''x/cfg.toml'') \<noteq> None \<and>
   (\<exists>v. load_source example_env example_fs ''base.yaml'' = Inr v) \<and>
   build_config_file example_env example_fs [''base.yaml'', ''x/cfg.toml'', ''local.yaml''] =
     (Inl (ValueError (''Configuration file suffix should be .json, .yml, or .yaml, not '' @
                       [CHR 0x27] @ ''.toml'' @ [CHR 0x27])), example_fs)"
proof -
  have sfx: "path_suffix ''x/cfg.toml'' \<notin> {''.json'', ''.yaml'', ''.yml''}"
    by (simp add: suffix_toml)
  have opened: "example_fs (path_str ''x/cfg.toml'') \<noteq> None"
    by (simp add: str_example example_fs_def)
  have before: "\<forall>p \<in> set [''base.yaml'']. \<exists>v. load_source example_env example_fs p = Inr v"
    by (simp add: load_base)
  from unrecognized_suffix_fails
    [OF sfx, of example_env example_fs "[''base.yaml'']" "[''local.yaml'']"] opened before
  have "build_config_file example_env example_fs ([''base.yaml''] @ ''x/cfg.toml'' # [''local.yaml'']) =
          (Inl (ValueError (suffix_message example_env ''x/cfg.toml'')), example_fs)"
    by blast
  with sfx opened show ?thesis
    by (simp add: toml_message load_base)
qed

text \<open>
  C8. Whenever \<^verbatim>\<open>build_config_file\<close> raises on its sources (a missing file, a
  malformed document, an unsupported extension), nothing is written: the file system
  afterwards is the file system before, \<^verbatim>\<open>ROOT_CONFIG_FILE\<close> included.
\<close>

theorem build_error_no_write:
  "fst (build_config_file e fs filenames) = Inl err \<Longrightarrow>
   snd (build_config_file e fs filenames) = fs"
  by (auto simp: build_config_file_def split: sum.splits)

theorem build_error_no_write_witness:
  "fst (build_config_file example_env example_fs [''base.yaml'', ''broken.json'']) =
     Inl JSONDecodeError \<and>
   snd (build_config_file example_env example_fs [''base.yaml'', ''broken.json'']) = example_fs"
proof -
  have h: "fst (build_config_file example_env example_fs [''base.yaml'', ''broken.json'']) =
             Inl JSONDecodeError"
    by (simp add: build_config_file_def load_base load_broken)
  from build_error_no_write [OF h] h show ?thesis by simp
qed

text \<open>
  C9. The globals built for a script: every key of the extra mapping has the extra
  mapping's value, as it is; of the other keys, \<^verbatim>\<open>__file__\<close> is the resolved path of
  the script, \<^verbatim>\<open>__name__\<close> is the given name, or \<^verbatim>\<open>"__main__"\<close> when none is
  given, \<^verbatim>\<open>__package__\<close> and \<^verbatim>\<open>__cached__\<close> are \<^verbatim>\<open>None\<close>, and no other key is
  set. The function is a function of its arguments only.
\<close>

theorem make_script_globals_lookup:
  "make_script_globals resolve script name kwargs key =
     (case kwargs key of
        Some v \<Rightarrow> Some v
      | None \<Rightarrow>
          if key = ''__file__'' then Some (PyStr (resolve script))
          else if key = ''__name__'' then
            Some (case name of None \<Rightarrow> PyStr ''__main__'' | Some n \<Rightarrow> n)
          else if key = ''__package__'' \<or> key = ''__cached__'' then Some PyNone
          else None)"
  by (simp add: make_script_globals_def map_add_def split: option.splits)

text \<open>
  C10. With the as-module flag set the target should be looked up as a module by its
  base name, and run by its path otherwise, whatever the output destination. The code
  picks the function by the flag but the first argument by the output destination:
  with no output file and the flag set, \<^verbatim>\<open>run_module\<close> is called with the resolved
  path \<^verbatim>\<open>/proj/driver.py\<close>, not with the base name \<^verbatim>\<open>driver\<close>; with an output file
  and the flag unset, \<^verbatim>\<open>run_path\<close> is called with \<^verbatim>\<open>driver\<close>.
\<close>

theorem run_script_target_follows_outfile:
  "run_script example_resolve ''/proj/driver.py'' (Map.empty :: unit globals) None ''w'' True =
     \<lparr>runner = run_module, target = ''/proj/driver.py'', init_globals = Map.empty,
      run_name = ''__main__'', redirect = None\<rparr> \<and>
   run_script example_resolve ''/proj/driver.py'' (Map.empty :: unit globals)
       (Some ''out.log'') ''w'' False =
     \<lparr>runner = run_path, target = ''driver'', init_globals = Map.empty,
      run_name = ''__main__'', redirect = Some (''out.log'', ''w'')\<rparr> \<and>
   path_stem ''/proj/driver.py'' = ''driver''"
  by (simp add: run_script_def example_resolve_def path_defs)

end
